theory Spec2Isabelle
  imports Main "HOL-Library.Sublist"
begin

section \<open>Python strings and dictionaries\<close>

text \<open>
  A Python \<^verbatim>\<open>str\<close> is modelled as a \<^typ>\<open>string\<close> whose characters are the code points
  below 256 (the Latin-1 range). On that range \<^verbatim>\<open>str.lower()\<close> works character by
  character: the letters A-Z (65-90) and the accented capitals 192-214 and 216-222 move up
  by 32, every other code point stays.
\<close>

definition lower_char :: "char \<Rightarrow> char" where
  "lower_char c =
     (let n = (of_char c :: nat)
      in if (65 \<le> n \<and> n \<le> 90) \<or> (192 \<le> n \<and> n \<le> 214) \<or> (216 \<le> n \<and> n \<le> 222)
         then char_of (n + 32) else c)"

definition lower :: "string \<Rightarrow> string" where
  "lower s = map lower_char s"

text \<open>
  \<^verbatim>\<open>s.replace(old, new)\<close>: every non-overlapping occurrence of \<open>old\<close>, found from the
  left, becomes \<open>new\<close>. With an empty \<open>old\<close> Python puts \<open>new\<close> before every character
  and at the end.
\<close>

function replace :: "string \<Rightarrow> string \<Rightarrow> string \<Rightarrow> string" where
  "replace [] old new = (if old = [] then new else [])"
| "replace (c # cs) old new =
     (if old = [] then new @ c # replace cs old new
      else if prefix old (c # cs) then new @ replace (drop (length old) (c # cs)) old new
      else c # replace cs old new)"
  by pat_completeness auto
termination
  by (relation "measure (\<lambda>(s, old, new). length s)") auto

text \<open>\<^verbatim>\<open>d.get(key, default)\<close> on a dictionary: the stored value, or the default.\<close>

definition dict_get :: "('k \<rightharpoonup> 'v) \<Rightarrow> 'k \<Rightarrow> 'v \<Rightarrow> 'v" where
  "dict_get d key dflt = (case d key of None \<Rightarrow> dflt | Some v \<Rightarrow> v)"

section \<open>Instruction generators\<close>

text \<open>
  The context variables are a dictionary from keys to strings. An f-string field
  \<^verbatim>\<open>{topic}\<close> holding a \<^verbatim>\<open>str\<close> is replaced by the string itself.
\<close>

type_synonym context_variables = "string \<rightharpoonup> string"

definition admin_instructions :: "context_variables \<Rightarrow> string" where
  "admin_instructions context_variables =
     (let topic = dict_get context_variables ''topic'' ''No topic provided''
      in ''You are the Admin Agent overseeing the blog post project on the topic: '' @ [CHR 0x27] @
         topic @
         [CHR 0x27] @ ''.\<newline>'' @
         ''Your responsibilities include initiating the project, providing guidance, and reviewing the final content.\<newline>'' @
         ''Once you've set the topic, call the function to transfer to the planner agent.'')"

definition planner_instructions :: "context_variables \<Rightarrow> string" where
  "planner_instructions context_variables =
     (let topic = dict_get context_variables ''topic'' ''No topic provided''
      in ''You are the Planner Agent. Based on the following topic: '' @ [CHR 0x27] @
         topic @
         [CHR 0x27] @ ''\<newline>'' @
         ''Organize the content into topics and sections with clear headings that will each be individually researched as points in the greater blog post.\<newline>'' @
         ''Once the outline is ready, call the researcher agent. '')"

definition researcher_instructions :: "context_variables \<Rightarrow> string" where
  "researcher_instructions context_variables =
     ''You are the Researcher Agent. your task is to provide dense context and information on the topics outlined by the previous planner agent.\<newline>'' @
     ''This research will serve as the information that will be formatted into a body of a blog post. Provide comprehensive research like notes for each of the sections outlined by the planner agent.\<newline>'' @
     ''Once your research is complete, transfer to the writer agent''"

definition writer_instructions :: "context_variables \<Rightarrow> string" where
  "writer_instructions context_variables =
     ''You are the Writer Agent. using the prior information write a clear blog post following the outline from the planner agent. \<newline>'' @
     ''    Summarise and include as much information relevant from the research into the blog post.\<newline>'' @
     ''    The blog post should be quite large as the context the context provided should be quite dense.\<newline>'' @
     ''Write clear, engaging content for each section.\<newline>'' @
     ''Once the draft is complete, call the function to transfer to the Editor Agent.''"

definition editor_instructions :: "context_variables \<Rightarrow> string" where
  "editor_instructions context_variables =
     ''You are the Editor Agent. Review and edit th prior blog post completed by the writer agent.\<newline>'' @
     ''Make necessary corrections and improvements.\<newline>'' @
     ''Once editing is complete, call the function to complete the blog post''"

section \<open>Agents and their functions\<close>

text \<open>
  The seven functions the notebook defines for agents to call, as function objects: an
  agent's \<^verbatim>\<open>functions\<close> list holds references to them. What a reference does when
  called is given by \<open>call\<close> below.
\<close>

datatype func =
    transfer_to_researcher_fn
  | transfer_to_planner_fn
  | transfer_to_writer_fn
  | transfer_to_editor_fn
  | transfer_to_admin_fn
  | complete_blog_fn
  | complete_blog_post_fn

text \<open>An \<^verbatim>\<open>Agent(name=..., instructions=..., functions=[...])\<close> object.\<close>

record Agent =
  name :: string
  instructions :: "context_variables \<Rightarrow> string"
  "functions" :: "func list"

definition admin_agent :: Agent where
  "admin_agent =
     \<lparr>name = ''Admin Agent'',
      instructions = admin_instructions,
      functions = [transfer_to_planner_fn]\<rparr>"

definition planner_agent :: Agent where
  "planner_agent =
     \<lparr>name = ''Planner Agent'',
      instructions = planner_instructions,
      functions = [transfer_to_researcher_fn]\<rparr>"

definition researcher_agent :: Agent where
  "researcher_agent =
     \<lparr>name = ''Researcher Agent'',
      instructions = researcher_instructions,
      functions = [transfer_to_writer_fn]\<rparr>"

definition writer_agent :: Agent where
  "writer_agent =
     \<lparr>name = ''Writer Agent'',
      instructions = writer_instructions,
      functions = [transfer_to_editor_fn]\<rparr>"

definition editor_agent :: Agent where
  "editor_agent =
     \<lparr>name = ''Editor Agent'',
      instructions = editor_instructions,
      functions = [complete_blog_post_fn]\<rparr>"

text \<open>The agents the notebook creates, in the order it creates them.\<close>

definition roster :: "Agent list" where
  "roster = [admin_agent, planner_agent, researcher_agent, writer_agent, editor_agent]"

section \<open>The state a call runs in\<close>

text \<open>
  One entry of the conversation history: a role, a content and, for a turn that asks for
  a function, the name of that function.
\<close>

datatype turn = Turn (turn_role: string) (turn_content: string) (turn_tool_call: "string option")

text \<open>
  A regular file of the store: its body and whether its permissions let the process write
  to it.
\<close>

record file_entry =
  body :: string
  may_write :: bool

text \<open>
  Everything a function called during a session could change or depend on: the session's
  context variables and conversation history, the lines printed so far, and the file
  store. The store holds the regular files by path and the directories by path, each
  directory with whether the process may create entries in it; the empty path is the
  working directory. \<open>new_file_writable\<close> tells whether the process's umask leaves the
  write permission on a file it creates, \<open>name_max\<close> is the longest file name in bytes
  (255 on the common file systems) and \<open>room\<close> the number of bytes the store takes for
  the body of a file being written. Paths are compared as they are spelled, and the
  store holds each file and each directory under one path only.
\<close>

record world =
  context_vars :: context_variables
  history :: "turn list"
  files :: "string \<rightharpoonup> file_entry"
  dirs :: "string \<rightharpoonup> bool"
  new_file_writable :: bool
  name_max :: nat
  room :: nat
  stdout :: "string list"

text \<open>
  The exceptions of the model. The subclasses of \<^verbatim>\<open>OSError\<close> are told apart by their
  error number: \<^verbatim>\<open>FileNotFoundError\<close> is \<open>ENOENT\<close>, \<^verbatim>\<open>PermissionError\<close> is
  \<open>EACCES\<close>, \<^verbatim>\<open>IsADirectoryError\<close> is \<open>EISDIR\<close>.
\<close>

datatype os_error = ENOENT | EACCES | EISDIR | ENAMETOOLONG | ENOSPC

datatype py_error = OSError os_error | ValueError | TypeError

section \<open>Opening and writing a file\<close>

text \<open>
  The number of bytes of a string in UTF-8, the encoding the file is opened with and the
  one of file names: one byte for a code point below 128, two for the others below 256.
\<close>

definition char_bytes :: "char \<Rightarrow> nat" where
  "char_bytes c = (if (of_char c :: nat) < 128 then 1 else 2)"

definition utf8_length :: "string \<Rightarrow> nat" where
  "utf8_length s = sum_list (map char_bytes s)"

text \<open>The longest beginning of a string whose characters fit into \<open>n\<close> bytes.\<close>

fun fit :: "nat \<Rightarrow> string \<Rightarrow> string" where
  "fit n [] = []"
| "fit n (c # cs) = (if char_bytes c \<le> n then c # fit (n - char_bytes c) cs else [])"

text \<open>
  The directory part of a path, without the slashes that end it (empty for a path with
  no slash: the working directory; \<open>/\<close> for a path directly under the root), and its
  last component.
\<close>

definition dirname :: "string \<Rightarrow> string" where
  "dirname path =
     (if CHR ''/'' \<in> set path then
        (let d = rev (dropWhile (\<lambda>c. c = CHR ''/'')
                   (dropWhile (\<lambda>c. c \<noteq> CHR ''/'') (rev path)))
         in if d = [] then ''/'' else d)
      else [])"

definition basename :: "string \<Rightarrow> string" where
  "basename path = rev (takeWhile (\<lambda>c. c \<noteq> CHR ''/'') (rev path))"

text \<open>
  Why \<^verbatim>\<open>open(path, "w", encoding="utf-8")\<close> raises, if it does. Python refuses a path
  with a NUL character before it asks the system (\<^verbatim>\<open>ValueError\<close>). The system refuses
  a path whose directory does not exist, whose last component is too long, or that names
  a directory; an existing file must be writable, a new one needs a directory that lets
  the process create it.
\<close>

definition open_error :: "world \<Rightarrow> string \<Rightarrow> py_error option" where
  "open_error w path =
     (if CHR 0x00 \<in> set path then Some ValueError
      else
        (case dirs w (dirname path) of
           None \<Rightarrow> Some (OSError ENOENT)
         | Some may_create \<Rightarrow>
             if name_max w < utf8_length (basename path) then Some (OSError ENAMETOOLONG)
             else if dirs w path \<noteq> None then Some (OSError EISDIR)
             else
               (case files w path of
                  Some f \<Rightarrow> if may_write f then None else Some (OSError EACCES)
                | None \<Rightarrow> if may_create then None else Some (OSError EACCES))))"

text \<open>
  The store with \<open>s\<close> as the body of the file at \<open>path\<close>: an existing file keeps its
  permissions, a new one gets those the umask leaves.
\<close>

definition put_body :: "world \<Rightarrow> string \<Rightarrow> string \<Rightarrow> world" where
  "put_body w path s =
     w\<lparr>files := (files w)(path \<mapsto>
         (case files w path of
            Some f \<Rightarrow> f\<lparr>body := s\<rparr>
          | None \<Rightarrow> \<lparr>body = s, may_write = new_file_writable w\<rparr>))\<rparr>"

text \<open>
  \<^verbatim>\<open>open(path, "w", encoding="utf-8")\<close>: it raises and changes nothing, or it leaves
  the file at \<open>path\<close> in the store with an empty body.
\<close>

definition py_open :: "string \<Rightarrow> world \<Rightarrow> (py_error + unit) \<times> world" where
  "py_open path w =
     (case open_error w path of
        Some e \<Rightarrow> (Inl e, w)
      | None \<Rightarrow> (Inr (), put_body w path []))"

text \<open>
  \<^verbatim>\<open>file.write(content)\<close> and the close at the end of the \<^verbatim>\<open>with\<close> block, on a
  file that was opened: the body becomes \<open>content\<close>, or, when the store has no room for
  all of it, the part that fits, and \<^verbatim>\<open>OSError\<close> is raised.
\<close>

definition py_write_close :: "string \<Rightarrow> string \<Rightarrow> world \<Rightarrow> (py_error + unit) \<times> world" where
  "py_write_close path content w =
     (if utf8_length content \<le> room w then (Inr (), put_body w path content)
      else (Inl (OSError ENOSPC), put_body w path (fit (room w) content)))"

text \<open>\<^verbatim>\<open>print(line)\<close>.\<close>

definition py_print :: "string \<Rightarrow> world \<Rightarrow> world" where
  "py_print line w = w\<lparr>stdout := stdout w @ [line]\<rparr>"

section \<open>The transfer functions\<close>

text \<open>
  The transfer functions take no parameter and return a module-level agent, looked up
  when the function is called (after all five agents exist). Their bodies read and write
  nothing else, so the state comes back as it went in.
\<close>

definition transfer_to_researcher :: "world \<Rightarrow> Agent \<times> world" where
  "transfer_to_researcher w = (researcher_agent, w)"

definition transfer_to_planner :: "world \<Rightarrow> Agent \<times> world" where
  "transfer_to_planner w = (planner_agent, w)"

definition transfer_to_writer :: "world \<Rightarrow> Agent \<times> world" where
  "transfer_to_writer w = (writer_agent, w)"

definition transfer_to_editor :: "world \<Rightarrow> Agent \<times> world" where
  "transfer_to_editor w = (editor_agent, w)"

definition transfer_to_admin :: "world \<Rightarrow> Agent \<times> world" where
  "transfer_to_admin w = (admin_agent, w)"

definition complete_blog :: "world \<Rightarrow> string \<times> world" where
  "complete_blog w = (''Task completed'', w)"

section \<open>The completion function\<close>

text \<open>The local variable \<^verbatim>\<open>filename\<close> of \<^verbatim>\<open>complete_blog_post\<close>.\<close>

definition filename :: "string \<Rightarrow> string" where
  "filename title = replace (lower title) '' '' ''-'' @ ''.md''"

text \<open>
  The body of \<^verbatim>\<open>complete_blog_post\<close>, statement by statement. No exception is caught:
  one raised by \<^verbatim>\<open>open\<close>, or by the write and the close of the \<^verbatim>\<open>with\<close> block,
  leaves the function at once, before the message is printed.
\<close>

definition complete_blog_post :: "string \<Rightarrow> string \<Rightarrow> world \<Rightarrow> (py_error + string) \<times> world" where
  "complete_blog_post title content w =
     (let filename = filename title
      in case py_open filename w of
           (Inl e, w1) \<Rightarrow> (Inl e, w1)
         | (Inr _, w1) \<Rightarrow>
             (case py_write_close filename content w1 of
                (Inl e, w2) \<Rightarrow> (Inl e, w2)
              | (Inr _, w2) \<Rightarrow>
                  (Inr ''Task completed'',
                   py_print (''Blog post '' @ [CHR 0x27] @ title @ [CHR 0x27] @
                             '' has been written to '' @ filename) w2)))"

section \<open>Calling a function object\<close>

datatype result = ReturnAgent Agent | ReturnStr string

text \<open>
  A call \<^verbatim>\<open>f(*args)\<close> with string arguments. A call with the wrong number of arguments
  raises \<^verbatim>\<open>TypeError\<close> before the body runs: the transfer functions and
  \<^verbatim>\<open>complete_blog\<close> have no parameter, \<^verbatim>\<open>complete_blog_post\<close> has the two
  parameters \<^verbatim>\<open>title\<close> and \<^verbatim>\<open>content\<close>. Otherwise the body runs in the
  state of the call.
\<close>

definition returning_agent :: "Agent \<times> world \<Rightarrow> (py_error + result) \<times> world" where
  "returning_agent r = (Inr (ReturnAgent (fst r)), snd r)"

fun call :: "func \<Rightarrow> string list \<Rightarrow> world \<Rightarrow> (py_error + result) \<times> world" where
  "call transfer_to_researcher_fn args w =
     (if args = [] then returning_agent (transfer_to_researcher w) else (Inl TypeError, w))"
| "call transfer_to_planner_fn args w =
     (if args = [] then returning_agent (transfer_to_planner w) else (Inl TypeError, w))"
| "call transfer_to_writer_fn args w =
     (if args = [] then returning_agent (transfer_to_writer w) else (Inl TypeError, w))"
| "call transfer_to_editor_fn args w =
     (if args = [] then returning_agent (transfer_to_editor w) else (Inl TypeError, w))"
| "call transfer_to_admin_fn args w =
     (if args = [] then returning_agent (transfer_to_admin w) else (Inl TypeError, w))"
| "call complete_blog_fn args w =
     (if args = []
      then (case complete_blog w of (v, w') \<Rightarrow> (Inr (ReturnStr v), w'))
      else (Inl TypeError, w))"
| "call complete_blog_post_fn args w =
     (case args of
        [title, content] \<Rightarrow>
          (case complete_blog_post title content w of
             (Inl e, w') \<Rightarrow> (Inl e, w')
           | (Inr v, w') \<Rightarrow> (Inr (ReturnStr v), w'))
      | _ \<Rightarrow> (Inl TypeError, w))"

section \<open>The hand-off graph\<close>

text \<open>The agent a call returns, when it returns one.\<close>

definition returned_agent :: "func \<Rightarrow> string list \<Rightarrow> world \<Rightarrow> Agent option" where
  "returned_agent f args w =
     (case fst (call f args w) of Inr (ReturnAgent b) \<Rightarrow> Some b | _ \<Rightarrow> None)"

text \<open>The agents that the functions of an agent hand off to, in the order of its list.\<close>

definition handoff_targets :: "Agent \<Rightarrow> world \<Rightarrow> Agent list" where
  "handoff_targets a w = List.map_filter (\<lambda>f. returned_agent f [] w) (functions a)"

definition sole_handoff :: "Agent \<Rightarrow> world \<Rightarrow> Agent option" where
  "sole_handoff a w = (case handoff_targets a w of [b] \<Rightarrow> Some b | _ \<Rightarrow> None)"

text \<open>
  The first \<open>k\<close> agents reached from \<open>a\<close> when every active agent calls its only
  hand-off function; the list ends early at an agent that has none.
\<close>

fun successive_targets :: "nat \<Rightarrow> Agent \<Rightarrow> world \<Rightarrow> Agent list" where
  "successive_targets 0 a w = []"
| "successive_targets (Suc k) a w =
     (case sole_handoff a w of
        None \<Rightarrow> []
      | Some b \<Rightarrow> b # successive_targets k b w)"

text \<open>The functions that return an agent.\<close>

definition handoff_functions :: "func list" where
  "handoff_functions =
     [transfer_to_planner_fn, transfer_to_researcher_fn, transfer_to_writer_fn,
      transfer_to_editor_fn, transfer_to_admin_fn]"

section \<open>The session and its dispatch loop\<close>

text \<open>
  Modelled from the spec: the states of the Dispatch Loop (section 4.4). The loop itself
  is the run loop of the swarm library, which the notebook only calls
  (\<^verbatim>\<open>run_demo_loop(admin_agent, debug=True)\<close>).
\<close>

datatype phase = AWAITING_INPUT | GENERATING | RESOLVING_TOOL | DONE | FAILED

text \<open>
  Modelled from the spec: the outcome of a tool invocation (section 4.3) and the errors
  of section 7 that a tool invocation can end in.
\<close>

datatype ToolOutcome = Data string | Handoff Agent | Terminal string

datatype session_error =
  UnauthorizedToolCall | MalformedToolCall | ToolExecutionError | SinkWriteError

text \<open>
  Modelled from the spec: the Session (section 3), the aggregate of the active agent, the
  context and the conversation history (both held in \<open>env\<close>), with the state of its
  Dispatch Loop.
\<close>

record session =
  active :: Agent
  phase :: phase
  env :: world

text \<open>
  Modelled from the spec: \<^verbatim>\<open>startSession(entryAgentIdentity, initialContext)\<close>
  (sections 4.4 and 6): the entry agent is active, the context holds the caller's values,
  the history is empty and the loop awaits input.
\<close>

definition startSession :: "Agent \<Rightarrow> context_variables \<Rightarrow> world \<Rightarrow> session" where
  "startSession entry initialContext w =
     \<lparr>active = entry, phase = AWAITING_INPUT,
      env = w\<lparr>context_vars := initialContext, history := []\<rparr>\<rparr>"

text \<open>
  Modelled from the spec: the transition from \<open>AWAITING_INPUT\<close> to \<open>GENERATING\<close>
  (section 4.4): the message received is appended to the history.
\<close>

definition submitInput :: "session \<Rightarrow> string \<Rightarrow> session" where
  "submitInput s text =
     (if phase s = AWAITING_INPUT
      then s\<lparr>phase := GENERATING,
             env := (env s)\<lparr>history := history (env s) @ [Turn ''user'' text None]\<rparr>\<rparr>
      else s)"

text \<open>
  Modelled from the spec: the transition from \<open>GENERATING\<close> to \<open>RESOLVING_TOOL\<close>
  (section 4.4): the backend asks for a tool; the request and the text that came with it
  are appended to the history.
\<close>

definition record_tool_call :: "session \<Rightarrow> string \<Rightarrow> string \<Rightarrow> session" where
  "record_tool_call s text tool =
     s\<lparr>phase := RESOLVING_TOOL,
       env := (env s)\<lparr>history := history (env s) @ [Turn ''assistant'' text (Some tool)]\<rparr>\<rparr>"

text \<open>
  Modelled from the spec: the transitions out of \<open>RESOLVING_TOOL\<close> (sections 4.4 and
  7). A hand-off swaps the active agent and the loop generates again; data is recorded as
  a message and the loop generates again; a terminal outcome ends the session; an
  unauthorized or malformed call is answered with an explanatory turn and the same agent
  is prompted again; a failure of the sink, or of the tool while it runs, is fatal.
\<close>

definition apply_outcome :: "session \<Rightarrow> session_error + ToolOutcome \<Rightarrow> session" where
  "apply_outcome s r =
     (case r of
        Inr (Handoff b) \<Rightarrow> s\<lparr>active := b, phase := GENERATING\<rparr>
      | Inr (Data v) \<Rightarrow>
          s\<lparr>phase := GENERATING,
            env := (env s)\<lparr>history := history (env s) @ [Turn ''tool'' v None]\<rparr>\<rparr>
      | Inr (Terminal v) \<Rightarrow> s\<lparr>phase := DONE\<rparr>
      | Inl SinkWriteError \<Rightarrow> s\<lparr>phase := FAILED\<rparr>
      | Inl ToolExecutionError \<Rightarrow> s\<lparr>phase := FAILED\<rparr>
      | Inl e \<Rightarrow>
          s\<lparr>phase := GENERATING,
            env := (env s)\<lparr>history := history (env s) @
                     [Turn ''system'' ''the tool call was rejected'' None]\<rparr>\<rparr>)"

text \<open>
  Modelled from the spec: one hand-off of a session, that is the request for a tool
  followed by its \<open>Handoff\<close> outcome, and a sequence of them.
\<close>

definition handoff_step :: "session \<Rightarrow> string \<times> Agent \<Rightarrow> session" where
  "handoff_step s step =
     apply_outcome (record_tool_call s [] (fst step)) (Inr (Handoff (snd step)))"

definition run_handoffs :: "session \<Rightarrow> (string \<times> Agent) list \<Rightarrow> session" where
  "run_handoffs s steps = foldl handoff_step s steps"

text \<open>
  Modelled from the spec: the Tool Resolver (section 4.3). A function outside the active
  agent's set is not executed. Otherwise the function is called, and what it returns or
  raises is classified: an agent is a hand-off, the string of a completion function is
  terminal, a wrong argument list is a malformed call, an error of the file system is the
  sink's error and any other exception an error of the tool's execution.
\<close>

definition invoke :: "Agent \<Rightarrow> func \<Rightarrow> string list \<Rightarrow> world \<Rightarrow> (session_error + ToolOutcome) \<times> world" where
  "invoke a f args w =
     (if f \<in> set (functions a) then
        (case call f args w of
           (Inl TypeError, w') \<Rightarrow> (Inl MalformedToolCall, w')
         | (Inl (OSError r), w') \<Rightarrow> (Inl SinkWriteError, w')
         | (Inl ValueError, w') \<Rightarrow> (Inl ToolExecutionError, w')
         | (Inr (ReturnAgent b), w') \<Rightarrow> (Inr (Handoff b), w')
         | (Inr (ReturnStr v), w') \<Rightarrow> (Inr (Terminal v), w'))
      else (Inl UnauthorizedToolCall, w))"

text \<open>
  Modelled from the spec: the Dispatch Loop resolving a requested tool: the Tool Resolver
  runs in the session's environment and its outcome decides the next state.
\<close>

definition resolve_tool :: "session \<Rightarrow> func \<Rightarrow> string list \<Rightarrow> session" where
  "resolve_tool s f args =
     (let (r, w') = invoke (active s) f args (env s)
      in apply_outcome (s\<lparr>env := w'\<rparr>) r)"

section \<open>The slug as the specification words it\<close>

text \<open>
  The characters below 256 that Python's \<^verbatim>\<open>str.isspace\<close> accepts: 9 to 13, 28 to 32,
  133 and 160.
\<close>

definition is_whitespace :: "char \<Rightarrow> bool" where
  "is_whitespace c =
     (let n = (of_char c :: nat)
      in (9 \<le> n \<and> n \<le> 13) \<or> (28 \<le> n \<and> n \<le> 32) \<or> n = 133 \<or> n = 160)"

text \<open>
  The file name as the specification describes it: the title in lower case, every
  whitespace character replaced by the separator, then the extension.
\<close>

definition filename_spec :: "string \<Rightarrow> string" where
  "filename_spec title =
     map (\<lambda>c. if is_whitespace c then CHR ''-'' else c) (lower title) @ ''.md''"

section \<open>Example states\<close>

text \<open>
  An empty working directory in which files can be created, with room for a body of a
  million bytes; files the process creates are writable.
\<close>

definition blank_world :: world where
  "blank_world =
     \<lparr>context_vars = Map.empty, history = [], files = Map.empty,
      dirs = [[] \<mapsto> True], new_file_writable = True, name_max = 255, room = 1000000,
      stdout = []\<rparr>"

text \<open>
  A session on the notebook's topic whose working directory already holds a writable file
  under the name the topic gives.
\<close>

definition demo_world :: world where
  "demo_world =
     \<lparr>context_vars = [''topic'' \<mapsto> ''Impact of LLMs on healthcare''],
      history = [Turn ''user'' ''Impact of LLMs on healthcare'' None],
      files = [''impact-of-llms-on-healthcare.md'' \<mapsto>
                 \<lparr>body = ''old draft'', may_write = True\<rparr>],
      dirs = [[] \<mapsto> True], new_file_writable = True, name_max = 255, room = 1000000,
      stdout = []\<rparr>"




section \<open>Conditions on the store\<close>

text \<open>A path that is a single file name: it has no slash and no NUL character.\<close>

definition plain_name :: "string \<Rightarrow> bool" where
  "plain_name path = (CHR ''/'' \<notin> set path \<and> CHR 0x00 \<notin> set path)"

text \<open>
  The working directory takes a file of the name \<open>f\<close>: the name is short enough and not
  that of a directory, and the file is there and writable, or is not there and can be
  created.
\<close>

definition takes_file :: "world \<Rightarrow> string \<Rightarrow> bool" where
  "takes_file w f =
     (utf8_length f \<le> name_max w \<and> dirs w f = None \<and>
      (case dirs w [] of
         None \<Rightarrow> False
       | Some may_create \<Rightarrow>
           (case files w f of Some e \<Rightarrow> may_write e | None \<Rightarrow> may_create)))"

section \<open>Facts about the definitions\<close>

subsection \<open>Strings\<close>

lemma replace_single_char:
  "replace s [a] [b] = map (\<lambda>c. if c = a then b else c) s"
  by (induction s) auto

text \<open>The definitions on values that Python gives for the same calls.\<close>

lemma replace_examples:
  "replace ''a  b c'' '' '' ''-'' = ''a--b-c''"
  "replace ''aaa'' ''aa'' ''b'' = ''ba''"
  "replace ''abc'' [] ''-'' = ''-a-b-c-''"
  "replace [] [] ''-'' = ''-''"
  by simp_all

lemma lower_examples:
  "lower ''LLMs on Healthcare'' = ''llms on healthcare''"
  "lower [CHR 0xC9, CHR 0xD7, CHR 0xDE, CHR 0xDF, CHR 0x09] =
     [CHR 0xE9, CHR 0xD7, CHR 0xFE, CHR 0xDF, CHR 0x09]"
  by (simp_all add: lower_def lower_char_def char_of_def bit_Suc_0_iff)

lemma filename_demo:
  "filename ''Impact of LLMs on healthcare'' = ''impact-of-llms-on-healthcare.md''"
  by (simp add: filename_def lower_def lower_char_def char_of_def bit_Suc_0_iff)

subsection \<open>The agents\<close>

lemma agent_names:
  "name admin_agent = ''Admin Agent''"
  "name planner_agent = ''Planner Agent''"
  "name researcher_agent = ''Researcher Agent''"
  "name writer_agent = ''Writer Agent''"
  "name editor_agent = ''Editor Agent''"
  by (simp_all add: admin_agent_def planner_agent_def researcher_agent_def writer_agent_def
      editor_agent_def)

lemma agent_functions:
  "functions admin_agent = [transfer_to_planner_fn]"
  "functions planner_agent = [transfer_to_researcher_fn]"
  "functions researcher_agent = [transfer_to_writer_fn]"
  "functions writer_agent = [transfer_to_editor_fn]"
  "functions editor_agent = [complete_blog_post_fn]"
  by (simp_all add: admin_agent_def planner_agent_def researcher_agent_def writer_agent_def
      editor_agent_def)

lemma agents_differ:
  "admin_agent \<noteq> planner_agent" "admin_agent \<noteq> researcher_agent"
  "admin_agent \<noteq> writer_agent" "admin_agent \<noteq> editor_agent"
  "planner_agent \<noteq> researcher_agent" "planner_agent \<noteq> writer_agent"
  "planner_agent \<noteq> editor_agent" "researcher_agent \<noteq> writer_agent"
  "researcher_agent \<noteq> editor_agent" "writer_agent \<noteq> editor_agent"
  by (simp_all add: admin_agent_def planner_agent_def researcher_agent_def writer_agent_def
      editor_agent_def)

lemma roster_nth:
  "roster ! 0 = admin_agent" "roster ! Suc 0 = planner_agent" "roster ! 2 = researcher_agent"
  "roster ! 3 = writer_agent" "roster ! 4 = editor_agent"
  by (simp_all add: roster_def)

subsection \<open>Calls\<close>

lemma call_handoff_functions:
  "f \<in> set handoff_functions \<Longrightarrow> snd (call f args w) = w"
  "f \<in> set handoff_functions \<Longrightarrow> args \<noteq> [] \<Longrightarrow> fst (call f args w) = Inl TypeError"
  by (auto simp add: handoff_functions_def returning_agent_def transfer_to_planner_def
      transfer_to_researcher_def transfer_to_writer_def transfer_to_editor_def
      transfer_to_admin_def)

lemma returned_agent_simps:
  "returned_agent transfer_to_planner_fn [] w = Some planner_agent"
  "returned_agent transfer_to_researcher_fn [] w = Some researcher_agent"
  "returned_agent transfer_to_writer_fn [] w = Some writer_agent"
  "returned_agent transfer_to_editor_fn [] w = Some editor_agent"
  "returned_agent transfer_to_admin_fn [] w = Some admin_agent"
  "returned_agent complete_blog_fn [] w = None"
  "returned_agent complete_blog_post_fn [] w = None"
  by (simp_all add: returned_agent_def returning_agent_def complete_blog_def
      transfer_to_planner_def transfer_to_researcher_def transfer_to_writer_def
      transfer_to_editor_def transfer_to_admin_def)

lemma returned_agent_args:
  "args \<noteq> [] \<Longrightarrow> returned_agent f args w = None"
  by (cases f) (simp_all add: returned_agent_def
      split: list.splits prod.splits sum.splits)

lemma handoff_functions_return_agents:
  "(f \<in> set handoff_functions) = (returned_agent f [] w \<noteq> None)"
  by (cases f) (simp_all add: handoff_functions_def returned_agent_simps)

lemma handoff_targets_roster:
  "handoff_targets admin_agent w = [planner_agent]"
  "handoff_targets planner_agent w = [researcher_agent]"
  "handoff_targets researcher_agent w = [writer_agent]"
  "handoff_targets writer_agent w = [editor_agent]"
  "handoff_targets editor_agent w = []"
  by (simp_all add: handoff_targets_def agent_functions returned_agent_simps)

lemma no_back_reference:
  assumes "i < length roster" "j < length roster"
    and "f \<in> set (functions (roster ! i))"
    and "returned_agent f args w = Some (roster ! j)"
  shows "j = Suc i"
proof -
  from assms(4) have args: "args = []"
    using returned_agent_args [of args f w] by auto
  from assms(1) have "i \<in> {0, 1, 2, 3, 4}"
    by (auto simp add: roster_def)
  moreover from assms(2) have "j \<in> {0, 1, 2, 3, 4}"
    by (auto simp add: roster_def)
  ultimately show ?thesis
    using assms(3,4) agents_differ agents_differ [symmetric]
    by (auto simp add: args roster_nth agent_functions returned_agent_simps)
qed

subsection \<open>The file store\<close>

lemma plain_dirname: "CHR ''/'' \<notin> set p \<Longrightarrow> dirname p = []"
  by (simp add: dirname_def)

lemma plain_basename: "CHR ''/'' \<notin> set p \<Longrightarrow> basename p = p"
proof -
  assume "CHR ''/'' \<notin> set p"
  then have "takeWhile (\<lambda>c. c \<noteq> CHR ''/'') (rev p) = rev p"
    by (auto simp add: takeWhile_eq_all_conv)
  then show ?thesis unfolding basename_def by (simp only: rev_rev_ident)
qed

lemma open_error_plain:
  "plain_name f \<Longrightarrow> takes_file w f \<Longrightarrow> open_error w f = None"
  by (auto simp add: plain_name_def takes_file_def open_error_def plain_dirname plain_basename
      split: option.splits)

lemma put_body_twice: "put_body (put_body w p a) p b = put_body w p b"
  by (simp add: put_body_def split: option.splits)

lemma put_body_frame:
  "room (put_body w p s) = room w" "dirs (put_body w p s) = dirs w"
  "name_max (put_body w p s) = name_max w" "new_file_writable (put_body w p s) = new_file_writable w"
  "stdout (put_body w p s) = stdout w" "context_vars (put_body w p s) = context_vars w"
  "history (put_body w p s) = history w"
  by (simp_all add: put_body_def)

lemma complete_blog_post_cases:
  "complete_blog_post title content w =
     (case open_error w (filename title) of
        Some e \<Rightarrow> (Inl e, w)
      | None \<Rightarrow>
          if utf8_length content \<le> room w
          then (Inr ''Task completed'',
                py_print (''Blog post '' @ [CHR 0x27] @ title @ [CHR 0x27] @
                          '' has been written to '' @ filename title)
                  (put_body w (filename title) content))
          else (Inl (OSError ENOSPC), put_body w (filename title) (fit (room w) content)))"
  by (simp add: complete_blog_post_def Let_def py_open_def py_write_close_def put_body_twice
      put_body_frame split: option.splits)



lemma print_frame:
  "files (py_print l w) = files w" "room (py_print l w) = room w"
  "context_vars (py_print l w) = context_vars w" "history (py_print l w) = history w"
  "stdout (py_print l w) = stdout w @ [l]"
  by (simp_all add: py_print_def)



lemma plain_demo: "plain_name ''impact-of-llms-on-healthcare.md''"
  by (simp add: plain_name_def)

lemma utf8_demo: "utf8_length ''impact-of-llms-on-healthcare.md'' = 31" "utf8_length ''...'' = 3"
  by (simp_all add: utf8_length_def char_bytes_def)

lemma complete_blog_post_stores:
  assumes "plain_name (filename title)" "takes_file w (filename title)"
    "utf8_length content \<le> room w"
  shows "complete_blog_post title content w =
     (Inr ''Task completed'',
      py_print (''Blog post '' @ [CHR 0x27] @ title @ [CHR 0x27] @
                '' has been written to '' @ filename title)
        (put_body w (filename title) content))"
  using assms by (simp add: complete_blog_post_cases open_error_plain)

lemma complete_blog_post_returns:
  assumes "fst (complete_blog_post title content w) = Inr v"
  shows "complete_blog_post title content w =
     (Inr ''Task completed'',
      py_print (''Blog post '' @ [CHR 0x27] @ title @ [CHR 0x27] @
                '' has been written to '' @ filename title)
        (put_body w (filename title) content))"
  using assms by (simp add: complete_blog_post_cases split: option.splits if_splits)

lemma files_put_body:
  "files (put_body w p s) =
     (files w)(p \<mapsto> (case files w p of
                       Some f \<Rightarrow> f\<lparr>body := s\<rparr>
                     | None \<Rightarrow> \<lparr>body = s, may_write = new_file_writable w\<rparr>))"
  by (simp add: put_body_def)

lemma body_put_body: "map_option body (files (put_body w p s) p) = Some s"
  by (simp add: put_body_def split: option.splits)

subsection \<open>Following the hand-offs\<close>

lemma successive_targets_editor:
  "successive_targets k editor_agent w = []"
  by (cases k) (simp_all add: sole_handoff_def handoff_targets_roster)

lemma successive_targets_writer:
  "successive_targets k writer_agent w = take k [editor_agent]"
  by (cases k) (simp_all add: sole_handoff_def handoff_targets_roster successive_targets_editor)

lemma successive_targets_researcher:
  "successive_targets k researcher_agent w = take k [writer_agent, editor_agent]"
  by (cases k) (simp_all add: sole_handoff_def handoff_targets_roster successive_targets_writer)

lemma successive_targets_planner:
  "successive_targets k planner_agent w = take k [researcher_agent, writer_agent, editor_agent]"
  by (cases k)
    (simp_all add: sole_handoff_def handoff_targets_roster successive_targets_researcher)

lemma successive_targets_admin:
  "successive_targets k admin_agent w =
     take k [planner_agent, researcher_agent, writer_agent, editor_agent]"
  by (cases k) (simp_all add: sole_handoff_def handoff_targets_roster successive_targets_planner)

subsection \<open>Sequences of hand-offs in a session\<close>

lemma active_handoff_step:
  "active (handoff_step s x) = snd x"
  by (simp add: handoff_step_def apply_outcome_def record_tool_call_def)

lemma history_handoff_step:
  "history (env (handoff_step s x)) = history (env s) @ [Turn ''assistant'' [] (Some (fst x))]"
  by (simp add: handoff_step_def apply_outcome_def record_tool_call_def)

lemma context_handoff_step:
  "context_vars (env (handoff_step s x)) = context_vars (env s)"
  by (simp add: handoff_step_def apply_outcome_def record_tool_call_def)

lemma run_handoffs_snoc:
  "run_handoffs s (steps @ [x]) = handoff_step (run_handoffs s steps) x"
  by (simp add: run_handoffs_def)

lemma history_run_handoffs:
  "history (env (run_handoffs s steps)) =
     history (env s) @ map (\<lambda>x. Turn ''assistant'' [] (Some (fst x))) steps"
proof (induction steps rule: rev_induct)
  case Nil
  show ?case by (simp add: run_handoffs_def)
next
  case (snoc x steps)
  then show ?case by (simp add: run_handoffs_snoc history_handoff_step)
qed

lemma active_run_handoffs:
  assumes "n < length steps"
  shows "active (run_handoffs s (take (Suc n) steps)) = snd (steps ! n)"
proof -
  from assms have "take (Suc n) steps = take n steps @ [steps ! n]"
    by (rule take_Suc_conv_app_nth)
  then show ?thesis by (simp add: run_handoffs_snoc active_handoff_step)
qed

text \<open>
  Resolving a requested transfer function of the active agent is a hand-off step to the
  agent that function returns.
\<close>

lemma resolve_handoff:
  assumes "f \<in> set (functions (active s))"
    and "returned_agent f [] (env s) = Some b"
  shows "resolve_tool (record_tool_call s [] nm) f [] = handoff_step s (nm, b)"
  by (insert assms, cases f)
    (simp_all add: resolve_tool_def invoke_def record_tool_call_def handoff_step_def
      apply_outcome_def returned_agent_def returning_agent_def complete_blog_def
      transfer_to_planner_def transfer_to_researcher_def transfer_to_writer_def
      transfer_to_editor_def transfer_to_admin_def)

section \<open>The claims\<close>

text \<open>
  C1. For every sequence of hand-off outcomes in a session, the active agent after the
  first \<open>n + 1\<close> hand-offs is the target named by hand-off number \<open>n\<close> (counted from
  0), and the length of the conversation history never decreases along the sequence.
  Resolving a transfer function of the active agent is such a hand-off, to the agent the
  function returns. In the notebook, starting from the admin agent and letting every
  active agent call its only hand-off function, the targets are the planner, the
  researcher, the writer and the editor, in this order, and the chain ends there. The
  session and its loop are modelled from the specification; the targets are computed from
  the notebook's agents and functions.
\<close>

theorem handoff_sequence:
  "(n < length steps \<longrightarrow> active (run_handoffs s (take (Suc n) steps)) = snd (steps ! n)) \<and>
   (i \<le> j \<longrightarrow> length (history (env (run_handoffs s (take i steps))))
                 \<le> length (history (env (run_handoffs s (take j steps))))) \<and>
   (f \<in> set (functions (active s)) \<and> returned_agent f [] (env s) = Some b \<longrightarrow>
      resolve_tool (record_tool_call s [] nm) f [] = run_handoffs s [(nm, b)]) \<and>
   successive_targets k admin_agent w =
     take k [planner_agent, researcher_agent, writer_agent, editor_agent]"
proof -
  have "active (run_handoffs s (take (Suc n) steps)) = snd (steps ! n)" if "n < length steps"
    using that by (rule active_run_handoffs)
  moreover have "length (history (env (run_handoffs s (take i steps))))
      \<le> length (history (env (run_handoffs s (take j steps))))" if "i \<le> j"
    using that by (simp add: history_run_handoffs min_def)
  moreover have "resolve_tool (record_tool_call s [] nm) f [] = run_handoffs s [(nm, b)]"
    if "f \<in> set (functions (active s)) \<and> returned_agent f [] (env s) = Some b"
    using that by (simp add: resolve_handoff run_handoffs_def)
  ultimately show ?thesis
    by (simp add: successive_targets_admin)
qed

theorem handoff_sequence_witness:
  "(0::nat) < length [(''transfer_to_planner'', planner_agent),
                      (''transfer_to_researcher'', researcher_agent)] \<and>
   active (run_handoffs
      (submitInput
         (startSession admin_agent [''topic'' \<mapsto> ''Impact of LLMs on healthcare''] blank_world)
         ''Impact of LLMs on healthcare'')
      (take (Suc 0) [(''transfer_to_planner'', planner_agent),
                     (''transfer_to_researcher'', researcher_agent)]))
     = planner_agent \<and>
   length (history (env (run_handoffs
      (submitInput
         (startSession admin_agent [''topic'' \<mapsto> ''Impact of LLMs on healthcare''] blank_world)
         ''Impact of LLMs on healthcare'')
      (take (Suc 0) [(''transfer_to_planner'', planner_agent),
                     (''transfer_to_researcher'', researcher_agent)])))) = 2 \<and>
   active (resolve_tool
      (record_tool_call
         (submitInput
            (startSession admin_agent [''topic'' \<mapsto> ''Impact of LLMs on healthcare'']
               blank_world)
            ''Impact of LLMs on healthcare'')
         [] ''transfer_to_planner'')
      transfer_to_planner_fn []) = planner_agent \<and>
   successive_targets 4 admin_agent blank_world =
     [planner_agent, researcher_agent, writer_agent, editor_agent]"
  using handoff_sequence [where n = 0 and i = 0 and j = 1 and k = 4 and w = blank_world
      and f = transfer_to_planner_fn and b = planner_agent and nm = "''transfer_to_planner''"
      and steps = "[(''transfer_to_planner'', planner_agent),
                    (''transfer_to_researcher'', researcher_agent)]"
      and s = "submitInput
         (startSession admin_agent [''topic'' \<mapsto> ''Impact of LLMs on healthcare''] blank_world)
         ''Impact of LLMs on healthcare''"]
  by (simp add: history_run_handoffs submitInput_def startSession_def agent_functions
      returned_agent_simps run_handoffs_def active_handoff_step history_handoff_step)

text \<open>
  C2. Each of the five transfer functions returns one fixed agent and the state it was
  called in, unchanged. Called as a function object it takes no argument (a call with
  arguments raises \<open>TypeError\<close>) and leaves the context variables, the conversation
  history, the files and the output as they were. The five are exactly the functions that
  return an agent. The swap of the active agent is done by the caller with the agent
  returned.
\<close>

theorem handoff_call_frame:
  "transfer_to_planner w = (planner_agent, w) \<and>
   transfer_to_researcher w = (researcher_agent, w) \<and>
   transfer_to_writer w = (writer_agent, w) \<and>
   transfer_to_editor w = (editor_agent, w) \<and>
   transfer_to_admin w = (admin_agent, w) \<and>
   call transfer_to_planner_fn [] w = (Inr (ReturnAgent planner_agent), w) \<and>
   call transfer_to_researcher_fn [] w = (Inr (ReturnAgent researcher_agent), w) \<and>
   call transfer_to_writer_fn [] w = (Inr (ReturnAgent writer_agent), w) \<and>
   call transfer_to_editor_fn [] w = (Inr (ReturnAgent editor_agent), w) \<and>
   call transfer_to_admin_fn [] w = (Inr (ReturnAgent admin_agent), w) \<and>
   (g \<in> set handoff_functions) = (returned_agent g [] w \<noteq> None) \<and>
   (f \<in> set handoff_functions \<longrightarrow>
      snd (call f args w) = w \<and>
      context_vars (snd (call f args w)) = context_vars w \<and>
      history (snd (call f args w)) = history w \<and>
      (args \<noteq> [] \<longrightarrow> fst (call f args w) = Inl TypeError))"
  using handoff_functions_return_agents [of g w]
  by (simp add: call_handoff_functions returning_agent_def transfer_to_planner_def
      transfer_to_researcher_def transfer_to_writer_def transfer_to_editor_def
      transfer_to_admin_def)

theorem handoff_call_frame_witness:
  "transfer_to_planner_fn \<in> set handoff_functions \<and>
   call transfer_to_planner_fn [] demo_world = (Inr (ReturnAgent planner_agent), demo_world) \<and>
   context_vars (snd (call transfer_to_planner_fn [''now''] demo_world)) ''topic''
     = Some ''Impact of LLMs on healthcare'' \<and>
   history (snd (call transfer_to_planner_fn [''now''] demo_world))
     = [Turn ''user'' ''Impact of LLMs on healthcare'' None] \<and>
   fst (call transfer_to_planner_fn [''now''] demo_world) = Inl TypeError"
  using handoff_call_frame [where f = transfer_to_planner_fn and args = "[''now'']"
      and w = demo_world and g = transfer_to_planner_fn]
  by (simp add: handoff_functions_def returning_agent_def transfer_to_planner_def
      transfer_to_researcher_def transfer_to_writer_def transfer_to_editor_def
      transfer_to_admin_def demo_world_def)

text \<open>
  C3. Whenever the context maps the key \<open>topic\<close> to a string \<open>X\<close>, the instructions
  the admin agent's generator returns contain \<open>X\<close> as a contiguous part.
\<close>

theorem admin_instructions_contain_topic:
  "c ''topic'' = Some X \<Longrightarrow> sublist X (admin_instructions c)"
proof -
  assume "c ''topic'' = Some X"
  then have "admin_instructions c =
    (''You are the Admin Agent overseeing the blog post project on the topic: '' @ [CHR 0x27]) @
    X @
    ([CHR 0x27] @ ''.\<newline>'' @
     ''Your responsibilities include initiating the project, providing guidance, and reviewing the final content.\<newline>'' @
     ''Once you've set the topic, call the function to transfer to the planner agent.'')"
    unfolding admin_instructions_def dict_get_def Let_def
    by (simp only: option.case append_assoc)
  then show ?thesis by (simp only: sublist_appendI)
qed

theorem admin_instructions_contain_topic_witness:
  "[''topic'' \<mapsto> ''Impact of LLMs on healthcare''] ''topic''
     = Some ''Impact of LLMs on healthcare'' \<and>
   sublist ''Impact of LLMs on healthcare''
     (admin_instructions [''topic'' \<mapsto> ''Impact of LLMs on healthcare''])"
  using admin_instructions_contain_topic
    [of "[''topic'' \<mapsto> ''Impact of LLMs on healthcare'']" "''Impact of LLMs on healthcare''"]
  by simp

text \<open>
  C4, as the specification states it: the file name is the title in lower case with
  every whitespace character replaced by the separator, followed by the extension. This
  fails for a title that holds a tab: the tab is whitespace and stays in the file name.
\<close>

theorem filename_keeps_tab:
  "is_whitespace (CHR 0x09) \<and>
   filename [CHR ''A'', CHR 0x09, CHR ''b''] =
     [CHR ''a'', CHR 0x09, CHR ''b'', CHR ''.'', CHR ''m'', CHR ''d''] \<and>
   filename_spec [CHR ''A'', CHR 0x09, CHR ''b''] = ''a-b.md'' \<and>
   filename [CHR ''A'', CHR 0x09, CHR ''b''] \<noteq> filename_spec [CHR ''A'', CHR 0x09, CHR ''b'']"
  by (simp add: filename_def filename_spec_def is_whitespace_def lower_def lower_char_def
      char_of_def bit_Suc_0_iff)

text \<open>
  C4, amended. For every title, the file name is the title in lower case with every space
  character (code point 32, and no other character) replaced by \<open>-\<close>, followed by
  \<open>.md\<close>; it holds no space; and whenever the call returns, the content is the body of
  the file of exactly that name and every other file is as it was.
\<close>

theorem filename_replaces_spaces_only:
  "filename title = map (\<lambda>c. if c = CHR '' '' then CHR ''-'' else c) (lower title) @ ''.md'' \<and>
   CHR '' '' \<notin> set (filename title) \<and>
   (fst (complete_blog_post title content w) = Inr ''Task completed'' \<longrightarrow>
      files (snd (complete_blog_post title content w)) =
        (files w)(filename title \<mapsto>
           (case files w (filename title) of
              Some f \<Rightarrow> f\<lparr>body := content\<rparr>
            | None \<Rightarrow> \<lparr>body = content, may_write = new_file_writable w\<rparr>)) \<and>
      map_option body (files (snd (complete_blog_post title content w)) (filename title))
        = Some content)"
proof -
  have name: "filename title =
      map (\<lambda>c. if c = CHR '' '' then CHR ''-'' else c) (lower title) @ ''.md''"
    by (simp add: filename_def replace_single_char)
  then have no_space: "CHR '' '' \<notin> set (filename title)"
    by auto
  have "files (snd (complete_blog_post title content w)) =
        (files w)(filename title \<mapsto>
           (case files w (filename title) of
              Some f \<Rightarrow> f\<lparr>body := content\<rparr>
            | None \<Rightarrow> \<lparr>body = content, may_write = new_file_writable w\<rparr>)) \<and>
      map_option body (files (snd (complete_blog_post title content w)) (filename title))
        = Some content"
    if "fst (complete_blog_post title content w) = Inr ''Task completed''"
    using complete_blog_post_returns [OF that]
    by (simp add: print_frame files_put_body split: option.splits)
  with name no_space show ?thesis by blast
qed

theorem filename_replaces_spaces_only_witness:
  "fst (complete_blog_post ''Impact of LLMs on healthcare'' ''...'' blank_world)
     = Inr ''Task completed'' \<and>
   filename ''Impact of LLMs on healthcare'' = ''impact-of-llms-on-healthcare.md'' \<and>
   map_option body
     (files (snd (complete_blog_post ''Impact of LLMs on healthcare'' ''...'' blank_world))
        ''impact-of-llms-on-healthcare.md'') = Some ''...''"
proof -
  have ok: "fst (complete_blog_post ''Impact of LLMs on healthcare'' ''...'' blank_world)
      = Inr ''Task completed''"
    by (simp add: complete_blog_post_stores filename_demo plain_demo takes_file_def utf8_demo
        blank_world_def)
  from ok filename_replaces_spaces_only
    [of "''Impact of LLMs on healthcare''" "''...''" blank_world]
  have stored: "map_option body
      (files (snd (complete_blog_post ''Impact of LLMs on healthcare'' ''...'' blank_world))
         (filename ''Impact of LLMs on healthcare'')) = Some ''...''"
    by blast
  from ok stored show ?thesis
    by (simp only: filename_demo simp_thms)
qed




text \<open>
  C6. The claim is that the completion function fails exactly when the backing store is
  unwritable. The function builds the file name under the comment
  \<^verbatim>\<open># Create a valid filename from the title\<close>, but only lower-cases the title and
  replaces its spaces. In an empty working directory where files can be created and
  written (the title \<open>AI ML\<close> is stored there without error), the title \<open>AI/ML\<close>
  gives the path \<open>ai/ml.md\<close> into a directory that does not exist and the call raises
  \<^verbatim>\<open>FileNotFoundError\<close>; a title with a NUL character raises \<^verbatim>\<open>ValueError\<close>. In
  both cases the store is left as it was.
\<close>

theorem slash_title_fails_in_writable_store:
  "fst (complete_blog_post ''AI ML'' ''...'' blank_world) = Inr ''Task completed'' \<and>
   filename ''AI/ML'' = ''ai/ml.md'' \<and>
   complete_blog_post ''AI/ML'' ''...'' blank_world = (Inl (OSError ENOENT), blank_world) \<and>
   complete_blog_post [CHR ''a'', CHR 0x00] ''...'' blank_world = (Inl ValueError, blank_world)"
  by (simp add: complete_blog_post_cases open_error_def filename_def lower_def lower_char_def
      char_of_def bit_Suc_0_iff dirname_def basename_def utf8_length_def char_bytes_def
      blank_world_def)

text \<open>
  C7. The instruction generators are functions from the context to a string with no
  failing step: the only lookup is \<^verbatim>\<open>get\<close> with a default. For every context, what
  each agent of the roster returns is what it returns on the context that holds only
  \<open>topic\<close>, bound to the stored topic or, without one, to the default. For every context
  without the key \<open>topic\<close>, the admin and the planner generator return their text with
  \<open>No topic provided\<close> in the place of the topic, and every agent returns what it returns
  on the empty context.
\<close>

theorem generators_default_topic:
  "map (\<lambda>a. instructions a c) roster =
     map (\<lambda>a. instructions a [''topic'' \<mapsto> dict_get c ''topic'' ''No topic provided''])
       roster \<and>
   (c ''topic'' = None \<longrightarrow>
      admin_instructions c =
        ''You are the Admin Agent overseeing the blog post project on the topic: '' @
        [CHR 0x27] @ ''No topic provided'' @ [CHR 0x27] @ ''.\<newline>'' @
        ''Your responsibilities include initiating the project, providing guidance, and reviewing the final content.\<newline>'' @
        ''Once you've set the topic, call the function to transfer to the planner agent.'' \<and>
      planner_instructions c =
        ''You are the Planner Agent. Based on the following topic: '' @
        [CHR 0x27] @ ''No topic provided'' @ [CHR 0x27] @ ''\<newline>'' @
        ''Organize the content into topics and sections with clear headings that will each be individually researched as points in the greater blog post.\<newline>'' @
        ''Once the outline is ready, call the researcher agent. '' \<and>
      map (\<lambda>a. instructions a c) roster = map (\<lambda>a. instructions a Map.empty) roster)"
proof -
  have stored: "dict_get [''topic'' \<mapsto> t] ''topic'' d = t" for t d :: string
    by (simp add: dict_get_def)
  have admin: "admin_instructions c =
      admin_instructions [''topic'' \<mapsto> dict_get c ''topic'' ''No topic provided'']"
    unfolding admin_instructions_def Let_def by (simp only: stored)
  have planner: "planner_instructions c =
      planner_instructions [''topic'' \<mapsto> dict_get c ''topic'' ''No topic provided'']"
    unfolding planner_instructions_def Let_def by (simp only: stored)
  have fixed: "researcher_instructions c = researcher_instructions c'"
    "writer_instructions c = writer_instructions c'"
    "editor_instructions c = editor_instructions c'" for c'
    by (simp_all only: researcher_instructions_def writer_instructions_def
        editor_instructions_def)
  have by_topic: "map (\<lambda>a. instructions a c) roster =
      map (\<lambda>a. instructions a [''topic'' \<mapsto> dict_get c ''topic'' ''No topic provided''])
        roster"
    using admin planner fixed
    by (simp add: roster_def admin_agent_def planner_agent_def researcher_agent_def
        writer_agent_def editor_agent_def)
  have absent: "admin_instructions c =
        ''You are the Admin Agent overseeing the blog post project on the topic: '' @
        [CHR 0x27] @ ''No topic provided'' @ [CHR 0x27] @ ''.\<newline>'' @
        ''Your responsibilities include initiating the project, providing guidance, and reviewing the final content.\<newline>'' @
        ''Once you've set the topic, call the function to transfer to the planner agent.'' \<and>
      planner_instructions c =
        ''You are the Planner Agent. Based on the following topic: '' @
        [CHR 0x27] @ ''No topic provided'' @ [CHR 0x27] @ ''\<newline>'' @
        ''Organize the content into topics and sections with clear headings that will each be individually researched as points in the greater blog post.\<newline>'' @
        ''Once the outline is ready, call the researcher agent. '' \<and>
      map (\<lambda>a. instructions a c) roster = map (\<lambda>a. instructions a Map.empty) roster"
    if "c ''topic'' = None"
  proof -
    from that have dflt: "dict_get c ''topic'' ''No topic provided'' = ''No topic provided''"
      and dflt_empty: "dict_get Map.empty ''topic'' ''No topic provided'' = ''No topic provided''"
      by (simp_all add: dict_get_def)
    have "admin_instructions c = admin_instructions Map.empty"
      "planner_instructions c = planner_instructions Map.empty"
      unfolding admin_instructions_def planner_instructions_def Let_def
      by (simp_all only: dflt dflt_empty)
    with fixed [of Map.empty]
    have "map (\<lambda>a. instructions a c) roster = map (\<lambda>a. instructions a Map.empty) roster"
      by (simp add: roster_def admin_agent_def planner_agent_def researcher_agent_def
          writer_agent_def editor_agent_def)
    moreover have "admin_instructions c =
        ''You are the Admin Agent overseeing the blog post project on the topic: '' @
        [CHR 0x27] @ ''No topic provided'' @ [CHR 0x27] @ ''.\<newline>'' @
        ''Your responsibilities include initiating the project, providing guidance, and reviewing the final content.\<newline>'' @
        ''Once you've set the topic, call the function to transfer to the planner agent.''"
      unfolding admin_instructions_def Let_def by (simp only: dflt)
    moreover have "planner_instructions c =
        ''You are the Planner Agent. Based on the following topic: '' @
        [CHR 0x27] @ ''No topic provided'' @ [CHR 0x27] @ ''\<newline>'' @
        ''Organize the content into topics and sections with clear headings that will each be individually researched as points in the greater blog post.\<newline>'' @
        ''Once the outline is ready, call the researcher agent. ''"
      unfolding planner_instructions_def Let_def by (simp only: dflt)
    ultimately show ?thesis by (simp only: simp_thms)
  qed
  from by_topic absent show ?thesis by blast
qed

theorem generators_default_topic_witness:
  "[''audience'' \<mapsto> ''nurses''] ''topic'' = None \<and>
   admin_instructions [''audience'' \<mapsto> ''nurses''] =
     ''You are the Admin Agent overseeing the blog post project on the topic: '' @ [CHR 0x27] @
     ''No topic provided'' @ [CHR 0x27] @ ''.\<newline>'' @
     ''Your responsibilities include initiating the project, providing guidance, and reviewing the final content.\<newline>'' @
     ''Once you've set the topic, call the function to transfer to the planner agent.'' \<and>
   planner_instructions [''audience'' \<mapsto> ''nurses''] = planner_instructions Map.empty"
  using generators_default_topic [of "[''audience'' \<mapsto> ''nurses'']"]
    generators_default_topic [of "Map.empty"]
  by simp

text \<open>
  C8. Every agent of the roster has exactly one function; \<open>transfer_to_admin\<close> and
  \<open>complete_blog\<close> are in no agent's list; the agents handed off to are, agent by agent,
  the planner, the researcher, the writer, the editor and none; the five agents are
  distinct; and whenever a function of the agent at position \<open>i\<close> returns the agent at
  position \<open>j\<close>, then \<open>j = i + 1\<close>: no agent hands control to itself or to an earlier one.
\<close>

theorem roster_is_linear_chain:
  "map functions roster =
     [[transfer_to_planner_fn], [transfer_to_researcher_fn], [transfer_to_writer_fn],
      [transfer_to_editor_fn], [complete_blog_post_fn]] \<and>
   map (\<lambda>a. length (functions a)) roster = [1, 1, 1, 1, 1] \<and>
   transfer_to_admin_fn \<notin> set (concat (map functions roster)) \<and>
   complete_blog_fn \<notin> set (concat (map functions roster)) \<and>
   map (\<lambda>a. handoff_targets a w) roster =
     [[planner_agent], [researcher_agent], [writer_agent], [editor_agent], []] \<and>
   distinct (map name roster) \<and>
   (i < length roster \<and> j < length roster \<and> f \<in> set (functions (roster ! i)) \<and>
    returned_agent f args w = Some (roster ! j) \<longrightarrow> j = Suc i)"
  using no_back_reference [of i j f args w]
  by (simp add: roster_def agent_functions agent_names handoff_targets_roster)

theorem roster_is_linear_chain_witness:
  "(0::nat) < length roster \<and> Suc 0 < length roster \<and>
   transfer_to_planner_fn \<in> set (functions (roster ! 0)) \<and>
   returned_agent transfer_to_planner_fn [] blank_world = Some (roster ! Suc 0) \<and>
   handoff_targets (roster ! 4) blank_world = []"
  using roster_is_linear_chain [where i = 0 and j = "Suc 0" and f = transfer_to_planner_fn
      and args = "[]" and w = blank_world]
  by (simp add: roster_def agent_functions returned_agent_simps)

text \<open>
  C9. The instruction generators of the researcher, the writer and the editor return the
  same string for any two contexts, as functions and as the \<open>instructions\<close> of their
  agents.
\<close>

theorem later_generators_ignore_context:
  "researcher_instructions c1 = researcher_instructions c2 \<and>
   writer_instructions c1 = writer_instructions c2 \<and>
   editor_instructions c1 = editor_instructions c2 \<and>
   instructions researcher_agent c1 = instructions researcher_agent c2 \<and>
   instructions writer_agent c1 = instructions writer_agent c2 \<and>
   instructions editor_agent c1 = instructions editor_agent c2"
  by (simp add: researcher_instructions_def writer_instructions_def editor_instructions_def
      researcher_agent_def writer_agent_def editor_agent_def)




end
